theory Spec2Isabelle
  imports Complex_Main "HOL-Library.Sublist" "HOL-Library.Char_ord" "HOL-Library.List_Lexorder"
begin

section \<open>The performance regression detector (scripts/performance\_regression\_detector.py)\<close>

text \<open>
  A shallow embedding of the class \<open>PerformanceRegressionDetector\<close> and of \<open>main\<close>.

  Modelling decisions.
  \<^item> Numbers. A JSON number is read by Python as an \<open>int\<close> or a \<open>float\<close>; the model
    uses exact rationals (\<^typ>\<open>rat\<close>) for both, so the rounding of binary floating
    point is not modelled, and the format specifications \<open>.1f\<close>, \<open>.2f\<close> and \<open>.4f\<close>
    round the exact value. The values \<open>NaN\<close> and \<open>Infinity\<close>, which \<open>json.load\<close>
    accepts, are outside the model. Python's \<open>/\<close> raises \<open>ZeroDivisionError\<close> on a
    zero divisor (for \<open>int\<close> and for \<open>float\<close>); the model returns
    \<open>Inl ZeroDivisionError\<close>.
  \<^item> A snapshot (a \<open>dict\<close> read from a JSON object) is the list of its items in
    insertion order, which is the order Python iterates a \<open>dict\<close> in. The values are
    JSON scalars; \<open>isinstance(v, (int, float))\<close> holds for numbers and, since
    \<open>bool\<close> is a subclass of \<open>int\<close>, for booleans.
  \<^item> Exceptions are values of a sum type: \<open>Inl e\<close> is the exception leaving the
    function, \<open>Inr v\<close> the returned value.
  \<^item> \<open>scipy.stats.linregress\<close>, \<open>datetime.now()\<close> and the file system are outside
    the source: the fit is a parameter \<open>lr\<close>, the clock a parameter \<open>now\<close>, and a
    historical file is given by the outcome of opening and parsing it.
  \<^item> Strings are byte strings; the non-ASCII characters of the source's literals are
    written as their UTF-8 bytes.
\<close>

subsection \<open>Values, errors and configuration constants\<close>

datatype jvalue = JNum rat | JBool bool | JStr string | JNull

type_synonym snapshot = "(string \<times> jvalue) list"

datatype error =
    ZeroDivisionError
  | JSONDecodeError
  | TypeError
  | StatisticsError

text \<open>\<open>isinstance(v, (int, float))\<close>, together with the value Python computes with.\<close>

fun num_of :: "jvalue \<Rightarrow> rat option" where
  "num_of (JNum r) = Some r"
| "num_of (JBool b) = Some (if b then 1 else 0)"
| "num_of (JStr s) = None"
| "num_of JNull = None"

definition REGRESSION_THRESHOLD :: rat where
  "REGRESSION_THRESHOLD = 15"

definition CONFIDENCE_LEVEL :: rat where
  "CONFIDENCE_LEVEL = 95 / 100"

definition MIN_SAMPLE_SIZE :: nat where
  "MIN_SAMPLE_SIZE = 10"

definition py_div :: "rat \<Rightarrow> rat \<Rightarrow> error + rat" where
  "py_div a b = (if b = 0 then Inl ZeroDivisionError else Inr (a / b))"

text \<open>\<open>statistics.mean\<close>: raises on an empty sequence.\<close>

definition mean :: "rat list \<Rightarrow> error + rat" where
  "mean xs = (if xs = [] then Inl StatisticsError else Inr (sum_list xs / of_nat (length xs)))"

text \<open>\<open>int(x)\<close> on a number: truncation towards zero.\<close>

definition py_int :: "rat \<Rightarrow> int" where
  "py_int x = (if 0 \<le> x then \<lfloor>x\<rfloor> else \<lceil>x\<rceil>)"

subsection \<open>Strings and number formatting\<close>

text \<open>\<open>str.lower\<close> on the ASCII letters; the code points are read as integers.\<close>

definition lower_char :: "char \<Rightarrow> char" where
  "lower_char c =
     (if 65 \<le> (of_char c :: int) \<and> (of_char c :: int) \<le> 90
      then char_of ((of_char c :: int) + 32) else c)"

definition lower :: "string \<Rightarrow> string" where
  "lower s = map lower_char s"

text \<open>\<open>k in s\<close> on strings: \<open>k\<close> occurs in \<open>s\<close> as a contiguous substring.\<close>

fun contains :: "string \<Rightarrow> string \<Rightarrow> bool" where
  "contains k [] = (k = [])"
| "contains k (c # cs) = (prefix k (c # cs) \<or> contains k cs)"

definition digit_char :: "int \<Rightarrow> char" where
  "digit_char d = char_of (48 + d)"

text \<open>The decimal digits of a non-negative integer.\<close>

function show_digits :: "int \<Rightarrow> string" where
  "show_digits n =
     (if n < 10 then [digit_char n] else show_digits (n div 10) @ [digit_char (n mod 10)])"
  by pat_completeness auto
termination
  by (relation "measure nat") auto

declare show_digits.simps [simp del]

text \<open>\<open>str(n)\<close> for a length and for an \<open>int\<close>.\<close>

definition show_nat :: "nat \<Rightarrow> string" where
  "show_nat n = show_digits (int n)"

definition show_int :: "int \<Rightarrow> string" where
  "show_int i = (if i < 0 then ''-'' @ show_digits (- i) else show_digits i)"

definition round_half_even :: "rat \<Rightarrow> int" where
  "round_half_even x =
     (let f = \<lfloor>x\<rfloor>; r = x - of_int f
      in if r < 1 / 2 then f
         else if 1 / 2 < r then f + 1
         else if even f then f else f + 1)"

definition zero_pad :: "nat \<Rightarrow> string \<Rightarrow> string" where
  "zero_pad d s = replicate (d - length s) (CHR ''0'') @ s"

text \<open>
  The format specification \<open>.df\<close>: \<open>d\<close> digits after the point, the exact value rounded
  to the nearest, ties to even; a negative value keeps its sign even when it rounds to
  zero (\<open>f"{-0.01:.1f}"\<close> is \<open>-0.0\<close>).
\<close>

definition fmt_fixed :: "nat \<Rightarrow> rat \<Rightarrow> string" where
  "fmt_fixed d x =
     (let n = round_half_even (\<bar>x\<bar> * 10 ^ d);
          ip = n div 10 ^ d;
          fp = n mod 10 ^ d
      in (if x < 0 then ''-'' else '''') @ show_digits ip @
         (if d = 0 then '''' else ''.'' @ zero_pad d (show_digits fp)))"

text \<open>\<open>"\n".join(lines)\<close>\<close>

fun join_lines :: "string list \<Rightarrow> string" where
  "join_lines [] = ''''"
| "join_lines [l] = l"
| "join_lines (l # m # ls) = l @ [CHR 0x0A] @ join_lines (m # ls)"

subsection \<open>Metric direction and severity\<close>

definition higher_worse_keywords :: "string list" where
  "higher_worse_keywords = [''time'', ''latency'', ''memory'', ''cpu'', ''disk'']"

text \<open>\<open>any(keyword in metric_name.lower() for keyword in [...])\<close>\<close>

definition is_higher_worse :: "string \<Rightarrow> bool" where
  "is_higher_worse metric_name = list_ex (\<lambda>keyword. contains keyword (lower metric_name)) higher_worse_keywords"

datatype severity = Low | Medium | High | Critical

fun severity_name :: "severity \<Rightarrow> string" where
  "severity_name Critical = ''critical''"
| "severity_name High = ''high''"
| "severity_name Medium = ''medium''"
| "severity_name Low = ''low''"

fun severity_upper :: "severity \<Rightarrow> string" where
  "severity_upper Critical = ''CRITICAL''"
| "severity_upper High = ''HIGH''"
| "severity_upper Medium = ''MEDIUM''"
| "severity_upper Low = ''LOW''"

fun severity_rank :: "severity \<Rightarrow> nat" where
  "severity_rank Low = 0"
| "severity_rank Medium = 1"
| "severity_rank High = 2"
| "severity_rank Critical = 3"

definition calculate_severity :: "rat \<Rightarrow> severity" where
  "calculate_severity change_percent =
     (if change_percent \<ge> 50 then Critical
      else if change_percent \<ge> 30 then High
      else if change_percent \<ge> 20 then Medium
      else Low)"

subsection \<open>Regression records\<close>

datatype detection_type = Baseline_comparison | Trend_analysis

text \<open>
  The keys a regression \<open>dict\<close> has besides the common ones: \<open>baseline\<close> and \<open>current\<close>
  on the baseline path, \<open>slope\<close>, \<open>r_squared\<close> and \<open>p_value\<close> on the trend path.
\<close>

datatype evidence =
    Baseline_evidence (ev_baseline: rat) (ev_current: rat)
  | Trend_evidence (ev_slope: rat) (ev_r_squared: rat) (ev_p_value: rat)

record regression =
  metric :: string
  rtype :: detection_type
  evidence :: evidence
  change_percent :: rat
  severity :: severity
  description :: string

subsection \<open>Baseline comparison\<close>

text \<open>The local variable \<open>change_percent\<close> of \<open>_check_metric_regression\<close>.\<close>

definition baseline_change_percent :: "string \<Rightarrow> rat \<Rightarrow> rat \<Rightarrow> error + rat" where
  "baseline_change_percent metric_name baseline current =
     (if is_higher_worse metric_name
      then (case py_div (current - baseline) baseline of
              Inl e \<Rightarrow> Inl e | Inr q \<Rightarrow> Inr (q * 100))
      else (case py_div (baseline - current) baseline of
              Inl e \<Rightarrow> Inl e | Inr q \<Rightarrow> Inr (q * 100)))"

definition baseline_regression :: "string \<Rightarrow> rat \<Rightarrow> rat \<Rightarrow> rat \<Rightarrow> regression" where
  "baseline_regression metric_name baseline current cp =
     \<lparr> metric = metric_name,
       rtype = Baseline_comparison,
       evidence = Baseline_evidence baseline current,
       change_percent = cp,
       severity = calculate_severity cp,
       description = metric_name @ '' degraded by '' @ fmt_fixed 1 cp @ ''% from baseline'' \<rparr>"

definition check_metric_regression :: "string \<Rightarrow> rat \<Rightarrow> rat \<Rightarrow> error + regression option" where
  "check_metric_regression metric_name baseline current =
     (case baseline_change_percent metric_name baseline current of
        Inl e \<Rightarrow> Inl e
      | Inr cp \<Rightarrow>
          if cp > REGRESSION_THRESHOLD
          then Inr (Some (baseline_regression metric_name baseline current cp))
          else Inr None)"

text \<open>The first loop of \<open>detect_regressions\<close>, over the items of the baseline.\<close>

fun compare_with_baseline :: "snapshot \<Rightarrow> snapshot \<Rightarrow> error + regression list" where
  "compare_with_baseline [] current_metrics = Inr []"
| "compare_with_baseline ((metric_name, baseline_value) # rest) current_metrics =
     (case (case map_of current_metrics metric_name of
              None \<Rightarrow> Inr None
            | Some current_value \<Rightarrow>
                (case (num_of baseline_value, num_of current_value) of
                   (Some b, Some c) \<Rightarrow> check_metric_regression metric_name b c
                 | _ \<Rightarrow> Inr None)) of
        Inl e \<Rightarrow> Inl e
      | Inr found \<Rightarrow>
          (case compare_with_baseline rest current_metrics of
             Inl e \<Rightarrow> Inl e
           | Inr regressions \<Rightarrow>
               Inr ((case found of None \<Rightarrow> [] | Some regression \<Rightarrow> [regression]) @ regressions)))"

subsection \<open>Trend analysis\<close>

text \<open>What the model keeps of the result of \<open>scipy.stats.linregress(x, values)\<close>.\<close>

record linreg =
  slope :: rat
  intercept :: rat
  r_value :: rat
  p_value :: rat
  std_err :: rat

definition trend_regression :: "string \<Rightarrow> linreg \<Rightarrow> rat \<Rightarrow> regression" where
  "trend_regression metric_name fit cp =
     \<lparr> metric = metric_name,
       rtype = Trend_analysis,
       evidence = Trend_evidence (slope fit) (r_value fit ^ 2) (p_value fit),
       change_percent = cp,
       severity = calculate_severity cp,
       description = metric_name @ '' shows significant degrading trend (p='' @
                     fmt_fixed 4 (p_value fit) @ '')'' \<rparr>"

definition analyze_trend ::
  "(rat list \<Rightarrow> linreg) \<Rightarrow> string \<Rightarrow> rat list \<Rightarrow> error + regression option" where
  "analyze_trend lr metric_name values =
     (let fit = lr values
      in if p_value fit < 1 - CONFIDENCE_LEVEL
         then (if (is_higher_worse metric_name \<and> slope fit > 0) \<or>
                  (\<not> is_higher_worse metric_name \<and> slope fit < 0)
               then (let total_change = slope fit * of_nat (length values)
                     in case mean (take 5 values) of
                          Inl e \<Rightarrow> Inl e
                        | Inr baseline_avg \<Rightarrow>
                            (case py_div \<bar>total_change\<bar> baseline_avg of
                               Inl e \<Rightarrow> Inl e
                             | Inr q \<Rightarrow>
                                 if q * 100 > REGRESSION_THRESHOLD
                                 then Inr (Some (trend_regression metric_name fit (q * 100)))
                                 else Inr None))
               else Inr None)
         else Inr None)"

text \<open>
  The \<open>dict\<close> \<open>metric_types\<close>, from metric name to the list of its values, as the list of
  its items in insertion order. \<open>add_value\<close> is the body of the inner loop: create the
  key with an empty list when it is new, then append.
\<close>

type_synonym metric_types = "(string \<times> rat list) list"

fun add_value :: "string \<Rightarrow> rat \<Rightarrow> metric_types \<Rightarrow> metric_types" where
  "add_value metric_name v [] = [(metric_name, [v])]"
| "add_value metric_name v ((k, vs) # rest) =
     (if k = metric_name then (k, vs @ [v]) # rest else (k, vs) # add_value metric_name v rest)"

fun group_data_point :: "snapshot \<Rightarrow> metric_types \<Rightarrow> metric_types" where
  "group_data_point [] g = g"
| "group_data_point ((metric_name, val) # items) g =
     group_data_point items
       (if metric_name \<noteq> ''timestamp''
        then (case num_of val of Some v \<Rightarrow> add_value metric_name v g | None \<Rightarrow> g)
        else g)"

fun group_metrics :: "snapshot list \<Rightarrow> metric_types \<Rightarrow> metric_types" where
  "group_metrics [] g = g"
| "group_metrics (data_point # rest) g = group_metrics rest (group_data_point data_point g)"

fun analyze_trends :: "(rat list \<Rightarrow> linreg) \<Rightarrow> metric_types \<Rightarrow> error + regression list" where
  "analyze_trends lr [] = Inr []"
| "analyze_trends lr ((metric_name, values) # rest) =
     (case (if length values \<ge> MIN_SAMPLE_SIZE
            then analyze_trend lr metric_name values
            else Inr None) of
        Inl e \<Rightarrow> Inl e
      | Inr found \<Rightarrow>
          (case analyze_trends lr rest of
             Inl e \<Rightarrow> Inl e
           | Inr regressions \<Rightarrow>
               Inr ((case found of None \<Rightarrow> [] | Some regression \<Rightarrow> [regression]) @ regressions)))"

definition detect_trend_regressions ::
  "(rat list \<Rightarrow> linreg) \<Rightarrow> snapshot list \<Rightarrow> error + regression list" where
  "detect_trend_regressions lr historical_metrics =
     analyze_trends lr (group_metrics historical_metrics [])"

definition detect_regressions ::
  "(rat list \<Rightarrow> linreg) \<Rightarrow> snapshot \<Rightarrow> snapshot \<Rightarrow> snapshot list \<Rightarrow> error + regression list" where
  "detect_regressions lr baseline_metrics current_metrics historical_metrics =
     (case compare_with_baseline baseline_metrics current_metrics of
        Inl e \<Rightarrow> Inl e
      | Inr regressions \<Rightarrow>
          if length historical_metrics \<ge> MIN_SAMPLE_SIZE
          then (case detect_trend_regressions lr historical_metrics of
                  Inl e \<Rightarrow> Inl e
                | Inr trend_regressions \<Rightarrow> Inr (regressions @ trend_regressions))
          else Inr regressions)"

text \<open>
  The historical series of a metric, read off the snapshots directly: the numeric values
  stored under that name, in the order of the snapshots.
\<close>

definition point_values :: "string \<Rightarrow> snapshot \<Rightarrow> rat list" where
  "point_values metric_name data_point =
     concat (map (\<lambda>(k, val). if k = metric_name \<and> k \<noteq> ''timestamp''
                               then (case num_of val of Some v \<Rightarrow> [v] | None \<Rightarrow> [])
                               else []) data_point)"

definition metric_series :: "string \<Rightarrow> snapshot list \<Rightarrow> rat list" where
  "metric_series metric_name historical_metrics =
     concat (map (point_values metric_name) historical_metrics)"

subsection \<open>Performance score\<close>

text \<open>The loop of \<open>_calculate_performance_score\<close> that fills \<open>scores\<close>.\<close>

fun metric_scores :: "snapshot \<Rightarrow> snapshot \<Rightarrow> error + rat list" where
  "metric_scores [] current_metrics = Inr []"
| "metric_scores ((metric_name, baseline_value) # rest) current_metrics =
     (case (case map_of current_metrics metric_name of
              None \<Rightarrow> Inr None
            | Some current_value \<Rightarrow>
                (case (num_of baseline_value, num_of current_value) of
                   (Some b, Some c) \<Rightarrow>
                     (case (if is_higher_worse metric_name then py_div b c else py_div c b) of
                        Inl e \<Rightarrow> Inl e
                      | Inr ratio \<Rightarrow> Inr (Some (min 100 (max 0 (ratio * 100)))))
                 | _ \<Rightarrow> Inr None)) of
        Inl e \<Rightarrow> Inl e
      | Inr found \<Rightarrow>
          (case metric_scores rest current_metrics of
             Inl e \<Rightarrow> Inl e
           | Inr scores \<Rightarrow> Inr ((case found of None \<Rightarrow> [] | Some score \<Rightarrow> [score]) @ scores)))"

definition calculate_performance_score :: "snapshot \<Rightarrow> snapshot \<Rightarrow> error + int" where
  "calculate_performance_score baseline_metrics current_metrics =
     (if current_metrics = [] \<or> baseline_metrics = [] then Inr 50
      else (case metric_scores baseline_metrics current_metrics of
              Inl e \<Rightarrow> Inl e
            | Inr scores \<Rightarrow>
                if scores \<noteq> []
                then (case mean scores of Inl e \<Rightarrow> Inl e | Inr m \<Rightarrow> Inr (py_int m))
                else Inr 50))"

subsection \<open>Report\<close>

text \<open>The non-ASCII prefixes of the source's literals, as the bytes the file holds.\<close>

definition check_mark :: string where
  "check_mark = [CHR 0xE2, CHR 0x80, CHR 0x9A, CHR 0xC3, CHR 0xBA, CHR 0xC3, CHR 0x96]"

definition alarm_mark :: string where
  "alarm_mark = [CHR 0xEF, CHR 0xA3, CHR 0xBF, CHR 0xC3, CHR 0xBC, CHR 0xC3, CHR 0xB6,
                 CHR 0xC2, CHR 0xAE]"

definition bullet_mark :: string where
  "bullet_mark = [CHR 0xE2, CHR 0x80, CHR 0x9A, CHR 0xC3, CHR 0x84, CHR 0xC2, CHR 0xA2]"

definition key_metrics :: "string list" where
  "key_metrics = [''response_time'', ''throughput'', ''cpu_usage'', ''memory_usage'']"

text \<open>
  The inner loop of \<open>_generate_performance_summary\<close>: the first item of the current
  snapshot whose lower-cased key contains \<open>metric\<close> and whose value is numeric gives one
  line, and the loop breaks.
\<close>

fun key_metric_line :: "string \<Rightarrow> snapshot \<Rightarrow> string list" where
  "key_metric_line m [] = []"
| "key_metric_line m ((k, val) # items) =
     (case (if contains m (lower k) then num_of val else None) of
        Some v \<Rightarrow> [''- '' @ k @ '': '' @ fmt_fixed 2 v]
      | None \<Rightarrow> key_metric_line m items)"

definition generate_performance_summary :: "snapshot \<Rightarrow> snapshot \<Rightarrow> error + string" where
  "generate_performance_summary baseline_metrics current_metrics =
     (case calculate_performance_score baseline_metrics current_metrics of
        Inl e \<Rightarrow> Inl e
      | Inr score \<Rightarrow>
          Inr (join_lines
                ([''**Overall Performance Score**: '' @ show_int score @ ''/100''] @
                 (if current_metrics \<noteq> []
                  then [[CHR 0x0A] @ ''### Key Metrics:''] @
                       concat (map (\<lambda>m. key_metric_line m current_metrics) key_metrics)
                  else []))))"

text \<open>
  The \<open>dict\<close> \<open>severity_groups\<close>: a key is present once a regression of that severity has
  been appended.
\<close>

fun group_by_severity ::
  "regression list \<Rightarrow> (severity \<rightharpoonup> regression list) \<Rightarrow> (severity \<rightharpoonup> regression list)" where
  "group_by_severity [] g = g"
| "group_by_severity (r # rs) g =
     group_by_severity rs
       (g(severity r \<mapsto> (case g (severity r) of None \<Rightarrow> [] | Some l \<Rightarrow> l) @ [r]))"

definition render_regression :: "regression \<Rightarrow> string list" where
  "render_regression r =
     [''- **'' @ metric r @ ''**: '' @ description r] @
     (case evidence r of
        Baseline_evidence b c \<Rightarrow>
          [''  - Baseline: '' @ fmt_fixed 2 b,
           ''  - Current: '' @ fmt_fixed 2 c,
           ''  - Change: '' @ fmt_fixed 1 (change_percent r) @ ''%'']
      | Trend_evidence s r2 p \<Rightarrow> []) @
     ['''']"

definition render_severity :: "(severity \<rightharpoonup> regression list) \<Rightarrow> severity \<Rightarrow> string list" where
  "render_severity severity_groups s =
     (case severity_groups s of
        None \<Rightarrow> []
      | Some l \<Rightarrow>
          (''## '' @ severity_upper s @ '' SEVERITY ('' @ show_nat (length l) @ '')'') #
          concat (map render_regression l))"

text \<open>\<open>now\<close> is \<open>datetime.now().isoformat()\<close>.\<close>

definition generate_report ::
  "string \<Rightarrow> snapshot \<Rightarrow> snapshot \<Rightarrow> regression list \<Rightarrow> error + string" where
  "generate_report now baseline_metrics current_metrics regressions =
     (case generate_performance_summary baseline_metrics current_metrics of
        Inl e \<Rightarrow> Inl e
      | Inr summary \<Rightarrow>
          Inr (join_lines
                ([''# Performance Regression Report'',
                  ''Generated: '' @ now,
                  ''Regressions Detected: '' @ show_nat (length regressions),
                  ''''] @
                 (if regressions = []
                  then [check_mark @ '' No performance regressions detected!'']
                  else concat (map (render_severity (group_by_severity regressions Map.empty))
                                 [Critical, High, Medium, Low])) @
                 [''## Performance Summary'', summary])))"

subsection \<open>Alerts\<close>

definition alert_regressions :: "regression list \<Rightarrow> regression list" where
  "alert_regressions regressions =
     filter (\<lambda>r. severity r = High \<or> severity r = Critical) regressions"

definition alert_subject :: "regression list \<Rightarrow> string" where
  "alert_subject alerts =
     alarm_mark @ '' Performance Regression Alert - '' @ show_nat (length alerts) @
     '' Issues Detected''"

record slack_field =
  title :: string
  field_value :: string
  short :: bool

text \<open>An element of the payload's \<open>attachments\<close>: the summary carries fields, a detail carries text.\<close>

datatype attachment =
    Fields_attachment string "slack_field list"
  | Text_attachment string string

record slack_message =
  text_of :: string
  attachments :: "attachment list"

text \<open>
  The payload \<open>_send_slack_notification\<close> posts; \<open>now\<close> is
  \<open>datetime.now().strftime("%Y-%m-%d %H:%M:%S")\<close>.
\<close>

definition slack_notification :: "string \<Rightarrow> string \<Rightarrow> regression list \<Rightarrow> slack_message" where
  "slack_notification now subject regressions =
     (let critical_count = length (filter (\<lambda>r. severity r = Critical) regressions);
          high_count = length (filter (\<lambda>r. severity r = High) regressions);
          critical_regressions = filter (\<lambda>r. severity r = Critical) regressions
      in \<lparr> text_of = subject,
           attachments =
             [Fields_attachment ''danger''
                [\<lparr> title = ''Summary'',
                    field_value = ''Critical: '' @ show_nat critical_count @ '', High: '' @
                          show_nat high_count,
                    short = True \<rparr>,
                 \<lparr> title = ''Time'', field_value = now, short = True \<rparr>]] @
             map (\<lambda>regression. Text_attachment ''danger''
                                  (bullet_mark @ '' '' @ description regression))
                 (take 5 critical_regressions) \<rparr>)"

text \<open>
  \<open>send_alert\<close> with a \<open>slack_webhook\<close> configured: the payload posted, if any.
\<close>

definition send_alert :: "string \<Rightarrow> regression list \<Rightarrow> slack_message option" where
  "send_alert now regressions =
     (if regressions = [] then None
      else if alert_regressions regressions = [] then None
      else Some (slack_notification now (alert_subject (alert_regressions regressions))
                   (alert_regressions regressions)))"

subsection \<open>Loading the historical snapshots\<close>









subsection \<open>Exit code\<close>

text \<open>The end of \<open>main\<close>: the argument of \<open>sys.exit\<close>.\<close>

definition exit_code :: "regression list \<Rightarrow> int" where
  "exit_code regressions =
     (let critical_regressions = filter (\<lambda>r. severity r = Critical) regressions
      in if critical_regressions \<noteq> [] then 1
         else if regressions \<noteq> [] then 2
         else 0)"

subsection \<open>Reference definitions\<close>

text \<open>
  The change of a metric as the specification words it: \<open>(current - baseline) / baseline * 100\<close>
  for a higher-is-worse metric, \<open>(baseline - current) / baseline * 100\<close> otherwise.
\<close>

definition spec_change_percent :: "string \<Rightarrow> rat \<Rightarrow> rat \<Rightarrow> rat" where
  "spec_change_percent metric_name baseline current =
     (if is_higher_worse metric_name
      then (current - baseline) / baseline * 100
      else (baseline - current) / baseline * 100)"

text \<open>The list \<open>metric_types\<close> holds under a name; empty when the name is not a key.\<close>

definition series_of :: "metric_types \<Rightarrow> string \<Rightarrow> rat list" where
  "series_of g metric_name = (case map_of g metric_name of None \<Rightarrow> [] | Some vs \<Rightarrow> vs)"


subsection \<open>Example inputs\<close>

text \<open>
  A fit that reports a significant rising line for every series, and a history of ten
  snapshots in which \<open>memory_usage_mb\<close> has ten points and \<open>cpu_usage\<close> nine.
\<close>

definition example_fit :: "rat list \<Rightarrow> linreg" where
  "example_fit values = \<lparr> slope = 6, intercept = 95, r_value = 1, p_value = 0, std_err = 0 \<rparr>"

definition example_history :: "snapshot list" where
  "example_history =
     map (\<lambda>v. [(''memory_usage_mb'', JNum v), (''cpu_usage'', JNum v)])
         [100, 102, 105, 108, 112, 118, 125, 133, 142] @
     [[(''memory_usage_mb'', JNum 152)]]"

section \<open>Properties\<close>

subsection \<open>Division\<close>

lemma py_div_zero: "py_div a 0 = Inl ZeroDivisionError"
  by (simp add: py_div_def)

lemma py_div_nonzero: "b \<noteq> 0 \<Longrightarrow> py_div a b = Inr (a / b)"
  by (simp add: py_div_def)

lemma baseline_change_percent_nonzero:
  "baseline \<noteq> 0 \<Longrightarrow>
   baseline_change_percent metric_name baseline current =
     Inr (if is_higher_worse metric_name
          then (current - baseline) / baseline * 100
          else (baseline - current) / baseline * 100)"
  by (simp add: baseline_change_percent_def py_div_nonzero)


subsection \<open>Zero baseline\<close>

text \<open>
  C1. The claim: a zero baseline is treated as "no regression computable", the run
  continues and no regression is produced for the metric. The code divides by the
  baseline without a guard: for every metric name and every current value,
  \<open>_check_metric_regression\<close> with baseline zero raises \<open>ZeroDivisionError\<close>, and
  \<open>detect_regressions\<close> on the baseline \<open>{response_time_ms: 0}\<close> and the current snapshot
  \<open>{response_time_ms: 5}\<close> raises it too, so the run does not continue.
\<close>

theorem zero_baseline_raises:
  "check_metric_regression metric_name 0 current = Inl ZeroDivisionError \<and>
   detect_regressions lr [(''response_time_ms'', JNum 0)] [(''response_time_ms'', JNum 5)] [] =
     Inl ZeroDivisionError"
  by (simp add: detect_regressions_def check_metric_regression_def baseline_change_percent_def
      py_div_zero)

subsection \<open>Severity\<close>

text \<open>
  C5. Above the 15 percent gate every value of \<open>change_percent\<close> has one severity:
  values of at least 50 are critical, values in [30, 50) high, values in [20, 30) medium
  and values in (15, 20) low; the boundary values 20, 30 and 50 fall into the higher
  bucket; and the severity is monotone in \<open>change_percent\<close>.
\<close>

theorem calculate_severity_buckets:
  "(50 \<le> x \<longrightarrow> calculate_severity x = Critical) \<and>
   (30 \<le> x \<and> x < 50 \<longrightarrow> calculate_severity x = High) \<and>
   (20 \<le> x \<and> x < 30 \<longrightarrow> calculate_severity x = Medium) \<and>
   (REGRESSION_THRESHOLD < x \<and> x < 20 \<longrightarrow> calculate_severity x = Low) \<and>
   calculate_severity 20 = Medium \<and> calculate_severity 30 = High \<and>
   calculate_severity 50 = Critical \<and>
   (x \<le> y \<longrightarrow> severity_rank (calculate_severity x) \<le> severity_rank (calculate_severity y))"
  by (simp add: calculate_severity_def REGRESSION_THRESHOLD_def)

theorem calculate_severity_buckets_witness:
  "(30::rat) \<le> 35 \<and> (35::rat) < 50 \<and> (35::rat) \<le> 60 \<and> calculate_severity 35 = High \<and>
   severity_rank (calculate_severity 35) \<le> severity_rank (calculate_severity 60)"
  using calculate_severity_buckets [of 35 60] by (simp add: calculate_severity_def)

subsection \<open>Monotonicity of the change\<close>




subsection \<open>Exit code\<close>

text \<open>
  C9. \<open>main\<close> exits with 0 exactly when no regression was detected, with 2 exactly when
  regressions were detected and none of them is critical, and with 1 exactly when at
  least one critical regression was detected.
\<close>

theorem exit_code_outcomes:
  "(exit_code regs = 0 \<longleftrightarrow> regs = []) \<and>
   (exit_code regs = 2 \<longleftrightarrow> regs \<noteq> [] \<and> (\<forall>r \<in> set regs. severity r \<noteq> Critical)) \<and>
   (exit_code regs = 1 \<longleftrightarrow> (\<exists>r \<in> set regs. severity r = Critical))"
  by (auto simp: exit_code_def Let_def filter_empty_conv)

theorem exit_code_outcomes_witness:
  "exit_code [] = 0 \<and>
   exit_code [baseline_regression ''response_time_ms'' 100 120 20] = 2 \<and>
   exit_code [baseline_regression ''response_time_ms'' 100 120 20,
              baseline_regression ''throughput'' 1000 400 60] = 1"
  using exit_code_outcomes [of "[]"]
    exit_code_outcomes [of "[baseline_regression ''response_time_ms'' 100 120 20]"]
    exit_code_outcomes [of "[baseline_regression ''response_time_ms'' 100 120 20,
              baseline_regression ''throughput'' 1000 400 60]"]
  by (simp add: baseline_regression_def calculate_severity_def)

subsection \<open>Baseline comparison\<close>

lemma check_metric_regression_nonzero:
  "baseline \<noteq> 0 \<Longrightarrow>
   check_metric_regression metric_name baseline current =
     Inr (if spec_change_percent metric_name baseline current > REGRESSION_THRESHOLD
          then Some (baseline_regression metric_name baseline current
                       (spec_change_percent metric_name baseline current))
          else None)"
  by (simp add: check_metric_regression_def baseline_change_percent_nonzero
      spec_change_percent_def)

lemma check_metric_regression_zero:
  "check_metric_regression m 0 c = Inl ZeroDivisionError"
  by (simp add: check_metric_regression_def baseline_change_percent_def py_div_zero)

lemma check_metric_regression_Some:
  assumes "check_metric_regression m b c = Inr (Some r)"
  shows "b \<noteq> 0 \<and> spec_change_percent m b c > REGRESSION_THRESHOLD \<and>
   r = baseline_regression m b c (spec_change_percent m b c)"
proof (cases "b = 0")
  case True
  with assms show ?thesis
    by (simp add: check_metric_regression_zero)
next
  case False
  with assms show ?thesis
    by (simp add: check_metric_regression_nonzero split: if_splits)
qed

lemma compare_with_baseline_mem:
  "compare_with_baseline base cur = Inr rs \<Longrightarrow>
   r \<in> set rs \<longleftrightarrow>
     (\<exists>m bv cv b c. (m, bv) \<in> set base \<and> map_of cur m = Some cv \<and>
        num_of bv = Some b \<and> num_of cv = Some c \<and>
        check_metric_regression m b c = Inr (Some r))"
proof (induction base arbitrary: rs)
  case Nil
  then show ?case by simp
next
  case (Cons item rest)
  obtain m bv where item: "item = (m, bv)" by (cases item)
  from Cons.prems obtain found rs' where
    f: "(case map_of cur m of
              None \<Rightarrow> Inr None
            | Some current_value \<Rightarrow>
                (case (num_of bv, num_of current_value) of
                   (Some b, Some c) \<Rightarrow> check_metric_regression m b c
                 | _ \<Rightarrow> Inr None)) = Inr found"
    and r: "compare_with_baseline rest cur = Inr rs'"
    and rs: "rs = (case found of None \<Rightarrow> [] | Some regression \<Rightarrow> [regression]) @ rs'"
    unfolding item by (auto split: sum.splits)
  have head: "found = Some r \<longleftrightarrow>
     (\<exists>cv b c. map_of cur m = Some cv \<and> num_of bv = Some b \<and> num_of cv = Some c \<and>
        check_metric_regression m b c = Inr (Some r))"
    using f by (auto split: option.splits)
  have "r \<in> set rs \<longleftrightarrow> found = Some r \<or> r \<in> set rs'"
    unfolding rs by (cases found) auto
  also have "\<dots> \<longleftrightarrow> (\<exists>cv b c. map_of cur m = Some cv \<and> num_of bv = Some b \<and>
        num_of cv = Some c \<and> check_metric_regression m b c = Inr (Some r)) \<or>
      (\<exists>m bv cv b c. (m, bv) \<in> set rest \<and> map_of cur m = Some cv \<and>
        num_of bv = Some b \<and> num_of cv = Some c \<and>
        check_metric_regression m b c = Inr (Some r))"
    unfolding head Cons.IH [OF r] ..
  also have "\<dots> \<longleftrightarrow> (\<exists>m bv cv b c. (m, bv) \<in> set (item # rest) \<and> map_of cur m = Some cv \<and>
        num_of bv = Some b \<and> num_of cv = Some c \<and>
        check_metric_regression m b c = Inr (Some r))"
    unfolding item by (simp only: set_simps insert_iff prod.inject) blast
  finally show ?case .
qed

lemma baseline_regression_sel [simp]:
  "metric (baseline_regression m b c cp) = m"
  "rtype (baseline_regression m b c cp) = Baseline_comparison"
  "change_percent (baseline_regression m b c cp) = cp"
  "severity (baseline_regression m b c cp) = calculate_severity cp"
  "evidence (baseline_regression m b c cp) = Baseline_evidence b c"
  by (simp_all add: baseline_regression_def)

lemma trend_regression_sel [simp]:
  "metric (trend_regression m fit cp) = m"
  "rtype (trend_regression m fit cp) = Trend_analysis"
  "change_percent (trend_regression m fit cp) = cp"
  "severity (trend_regression m fit cp) = calculate_severity cp"
  by (simp_all add: trend_regression_def)

lemma analyze_trend_Some:
  "analyze_trend lr m vs = Inr (Some r) \<Longrightarrow> metric r = m \<and> rtype r = Trend_analysis"
  by (auto simp: analyze_trend_def Let_def split: if_splits sum.splits)

lemma analyze_trends_mem:
  "analyze_trends lr g = Inr rs \<Longrightarrow> r \<in> set rs \<Longrightarrow>
   rtype r = Trend_analysis \<and> (\<exists>vs. (metric r, vs) \<in> set g \<and> MIN_SAMPLE_SIZE \<le> length vs)"
proof (induction g arbitrary: rs)
  case Nil
  then show ?case by simp
next
  case (Cons item rest)
  obtain m vs where item: "item = (m, vs)" by (cases item)
  from Cons.prems(1) obtain found rs' where
    f: "(if length vs \<ge> MIN_SAMPLE_SIZE then analyze_trend lr m vs else Inr None) = Inr found"
    and r: "analyze_trends lr rest = Inr rs'"
    and rs: "rs = (case found of None \<Rightarrow> [] | Some regression \<Rightarrow> [regression]) @ rs'"
    unfolding item by (auto split: sum.splits)
  from Cons.prems(2) have "found = Some r \<or> r \<in> set rs'"
    unfolding rs by (cases found) auto
  then show ?case
  proof
    assume "found = Some r"
    with f have "MIN_SAMPLE_SIZE \<le> length vs" and "analyze_trend lr m vs = Inr (Some r)"
      by (auto split: if_splits)
    then show ?thesis
      using analyze_trend_Some [of lr m vs r] unfolding item by auto
  next
    assume "r \<in> set rs'"
    from Cons.IH [OF r this] show ?thesis by auto
  qed
qed


subsection \<open>Grouping the historical values\<close>

lemma series_of_add_value:
  "series_of (add_value k v g) m = series_of g m @ (if m = k then [v] else [])"
  by (induction g) (auto simp: series_of_def)

lemma keys_add_value:
  "map fst (add_value k v g) = (if k \<in> set (map fst g) then map fst g else map fst g @ [k])"
proof (induction g)
  case Nil
  then show ?case by simp
next
  case (Cons item rest)
  obtain k' vs where item: "item = (k', vs)" by (cases item)
  show ?case
  proof (cases "k' = k")
    case True
    then show ?thesis by (simp add: item)
  next
    case False
    then show ?thesis by (simp add: item Cons.IH)
  qed
qed

lemma distinct_add_value:
  "distinct (map fst g) \<Longrightarrow> distinct (map fst (add_value k v g))"
  by (simp add: keys_add_value)

lemma point_values_Nil [simp]: "point_values m [] = []"
  by (simp add: point_values_def)

lemma point_values_Cons:
  "point_values m ((k, val) # items) =
     (if k = m \<and> k \<noteq> ''timestamp''
      then (case num_of val of Some v \<Rightarrow> [v] | None \<Rightarrow> []) else []) @ point_values m items"
  by (simp add: point_values_def)

lemma group_data_point_series:
  "series_of (group_data_point dp g) m = series_of g m @ point_values m dp"
proof (induction dp arbitrary: g)
  case Nil
  then show ?case by simp
next
  case (Cons item items)
  obtain k val where item: "item = (k, val)" by (cases item)
  show ?case
    unfolding item group_data_point.simps Cons.IH point_values_Cons
    by (cases "num_of val") (auto simp: series_of_add_value)
qed

lemma group_data_point_distinct:
  "distinct (map fst g) \<Longrightarrow> distinct (map fst (group_data_point dp g))"
proof (induction dp arbitrary: g)
  case Nil
  then show ?case by simp
next
  case (Cons item items)
  obtain k val where item: "item = (k, val)" by (cases item)
  from Cons.prems show ?case
    unfolding item group_data_point.simps
    by (intro Cons.IH) (auto simp: distinct_add_value split: option.splits)
qed

lemma group_metrics_series:
  "series_of (group_metrics hist g) m = series_of g m @ metric_series m hist"
  by (induction hist arbitrary: g) (simp_all add: metric_series_def group_data_point_series)

lemma group_metrics_distinct:
  "distinct (map fst g) \<Longrightarrow> distinct (map fst (group_metrics hist g))"
  by (induction hist arbitrary: g) (simp_all add: group_data_point_distinct)

lemma group_metrics_entry:
  assumes "(m, vs) \<in> set (group_metrics hist [])"
  shows "vs = metric_series m hist"
proof -
  have "distinct (map fst (group_metrics hist []))"
    by (rule group_metrics_distinct) simp
  with assms have "map_of (group_metrics hist []) m = Some vs"
    by simp
  then have "vs = series_of (group_metrics hist []) m"
    by (simp add: series_of_def)
  also have "\<dots> = series_of [] m @ metric_series m hist"
    by (rule group_metrics_series)
  also have "series_of [] m = []"
    by (simp add: series_of_def)
  finally show ?thesis by simp
qed

lemma detect_trend_regressions_mem:
  assumes "detect_trend_regressions lr hist = Inr rs" and "r \<in> set rs"
  shows "rtype r = Trend_analysis \<and> MIN_SAMPLE_SIZE \<le> length (metric_series (metric r) hist)"
proof -
  from analyze_trends_mem [OF assms [unfolded detect_trend_regressions_def]]
  obtain vs where t: "rtype r = Trend_analysis"
    and e: "(metric r, vs) \<in> set (group_metrics hist [])" and l: "MIN_SAMPLE_SIZE \<le> length vs"
    by blast
  from group_metrics_entry [OF e] l t show ?thesis by simp
qed

lemma compare_with_baseline_rtype:
  assumes "compare_with_baseline base cur = Inr rs" and "r \<in> set rs"
  shows "rtype r = Baseline_comparison"
  using compare_with_baseline_mem [OF assms(1), of r] assms(2)
  by (auto dest!: check_metric_regression_Some)

lemma detect_regressions_cases:
  assumes "detect_regressions lr base cur hist = Inr rs"
  obtains bs ts where "compare_with_baseline base cur = Inr bs" and "rs = bs @ ts"
    and "ts = [] \<or> detect_trend_regressions lr hist = Inr ts"
  using assms unfolding detect_regressions_def
  by (auto split: sum.splits if_splits)

subsection \<open>Minimum sample size of the trend path\<close>

text \<open>
  C6. A metric whose historical numeric series has 9 or fewer points never gets a
  \<open>trend_analysis\<close> regression, whatever the fit reports: neither from
  \<open>_detect_trend_regressions\<close> nor from \<open>detect_regressions\<close>. Equivalently, a trend
  regression is only produced for a metric with at least \<open>MIN_SAMPLE_SIZE = 10\<close> points.
\<close>

theorem trend_needs_ten_points:
  "(detect_trend_regressions lr hist = Inr rs \<and> length (metric_series m hist) \<le> 9 \<longrightarrow>
      \<not> (\<exists>r \<in> set rs. metric r = m)) \<and>
   (detect_regressions lr base cur hist = Inr rs' \<and> length (metric_series m hist) \<le> 9 \<longrightarrow>
      \<not> (\<exists>r \<in> set rs'. rtype r = Trend_analysis \<and> metric r = m))"
proof (intro conjI impI)
  assume h: "detect_trend_regressions lr hist = Inr rs \<and> length (metric_series m hist) \<le> 9"
  show "\<not> (\<exists>r \<in> set rs. metric r = m)"
  proof
    assume "\<exists>r \<in> set rs. metric r = m"
    then obtain r where "r \<in> set rs" and "metric r = m" by blast
    with detect_trend_regressions_mem [of lr hist rs r] h show False
      by (simp add: MIN_SAMPLE_SIZE_def)
  qed
next
  assume h: "detect_regressions lr base cur hist = Inr rs' \<and> length (metric_series m hist) \<le> 9"
  show "\<not> (\<exists>r \<in> set rs'. rtype r = Trend_analysis \<and> metric r = m)"
  proof
    assume "\<exists>r \<in> set rs'. rtype r = Trend_analysis \<and> metric r = m"
    then obtain r where r: "r \<in> set rs'" "rtype r = Trend_analysis" "metric r = m" by blast
    from h obtain bs ts where b: "compare_with_baseline base cur = Inr bs" and rs: "rs' = bs @ ts"
      and t: "ts = [] \<or> detect_trend_regressions lr hist = Inr ts"
      by (blast elim: detect_regressions_cases)
    from r(1) rs have "r \<in> set bs \<or> r \<in> set ts" by simp
    then show False
    proof
      assume "r \<in> set bs"
      from compare_with_baseline_rtype [OF b this] r(2) show False by simp
    next
      assume rt: "r \<in> set ts"
      with t have "detect_trend_regressions lr hist = Inr ts" by auto
      from detect_trend_regressions_mem [OF this rt] h r(3) show False
        by (simp add: MIN_SAMPLE_SIZE_def)
    qed
  qed
qed

theorem trend_needs_ten_points_witness:
  "detect_trend_regressions example_fit example_history =
     Inr [\<lparr> metric = ''memory_usage_mb'', rtype = Trend_analysis,
            evidence = Trend_evidence 6 1 0, change_percent = 30000 / 527,
            severity = Critical,
            description = ''memory_usage_mb shows significant degrading trend (p=0.0000)'' \<rparr>] \<and>
   detect_regressions example_fit [] [] example_history =
     Inr [\<lparr> metric = ''memory_usage_mb'', rtype = Trend_analysis,
            evidence = Trend_evidence 6 1 0, change_percent = 30000 / 527,
            severity = Critical,
            description = ''memory_usage_mb shows significant degrading trend (p=0.0000)'' \<rparr>] \<and>
   length (metric_series ''cpu_usage'' example_history) = 9 \<and>
   \<not> (\<exists>r \<in> set [\<lparr> metric = ''memory_usage_mb'', rtype = Trend_analysis,
            evidence = Trend_evidence 6 1 0, change_percent = 30000 / 527,
            severity = Critical,
            description = ''memory_usage_mb shows significant degrading trend (p=0.0000)'' \<rparr>].
        rtype r = Trend_analysis \<and> metric r = ''cpu_usage'')"
proof -
  have t: "detect_trend_regressions example_fit example_history =
     Inr [\<lparr> metric = ''memory_usage_mb'', rtype = Trend_analysis,
            evidence = Trend_evidence 6 1 0, change_percent = 30000 / 527,
            severity = Critical,
            description = ''memory_usage_mb shows significant degrading trend (p=0.0000)'' \<rparr>]"
    by code_simp
  have d: "detect_regressions example_fit [] [] example_history =
     Inr [\<lparr> metric = ''memory_usage_mb'', rtype = Trend_analysis,
            evidence = Trend_evidence 6 1 0, change_percent = 30000 / 527,
            severity = Critical,
            description = ''memory_usage_mb shows significant degrading trend (p=0.0000)'' \<rparr>]"
    by code_simp
  have l: "length (metric_series ''cpu_usage'' example_history) = 9"
    by code_simp
  from trend_needs_ten_points [of example_fit example_history _ "''cpu_usage''" "[]" "[]"] t d l
  show ?thesis by simp
qed


subsection \<open>The baseline rule\<close>




subsection \<open>Slack notification\<close>

lemma filter_alert_critical:
  "filter (\<lambda>r. severity r = Critical) (alert_regressions regs) =
   filter (\<lambda>r. severity r = Critical) regs"
  unfolding alert_regressions_def filter_filter by (rule filter_cong) auto

lemma filter_alert_high:
  "filter (\<lambda>r. severity r = High) (alert_regressions regs) =
   filter (\<lambda>r. severity r = High) regs"
  unfolding alert_regressions_def filter_filter by (rule filter_cong) auto

lemma slack_notification_attachments:
  "attachments (slack_notification now subject regs) =
     Fields_attachment ''danger''
       [\<lparr> title = ''Summary'',
          field_value =
            ''Critical: '' @ show_nat (length (filter (\<lambda>r. severity r = Critical) regs)) @
            '', High: '' @ show_nat (length (filter (\<lambda>r. severity r = High) regs)),
          short = True \<rparr>,
        \<lparr> title = ''Time'', field_value = now, short = True \<rparr>] #
     map (\<lambda>r. Text_attachment ''danger'' (bullet_mark @ '' '' @ description r))
         (take 5 (filter (\<lambda>r. severity r = Critical) regs))"
  by (simp add: slack_notification_def Let_def)

text \<open>
  C10. The payload of \<open>_send_slack_notification\<close> is the summary attachment followed
  by one detail attachment for each of the first five critical regressions, in list
  order: at most five details, none for a regression that is not critical. The summary
  counts all critical and all high regressions; through \<open>send_alert\<close> these are the
  counts over the whole list of detected regressions.
\<close>

theorem slack_detail_attachments:
  "attachments (slack_notification now subject regs) =
     Fields_attachment ''danger''
       [\<lparr> title = ''Summary'',
          field_value =
            ''Critical: '' @ show_nat (length (filter (\<lambda>r. severity r = Critical) regs)) @
            '', High: '' @ show_nat (length (filter (\<lambda>r. severity r = High) regs)),
          short = True \<rparr>,
        \<lparr> title = ''Time'', field_value = now, short = True \<rparr>] #
     map (\<lambda>r. Text_attachment ''danger'' (bullet_mark @ '' '' @ description r))
         (take 5 (filter (\<lambda>r. severity r = Critical) regs)) \<and>
   length (tl (attachments (slack_notification now subject regs))) =
     min 5 (length (filter (\<lambda>r. severity r = Critical) regs)) \<and>
   (send_alert now regs = Some m \<longrightarrow>
      attachments m =
        Fields_attachment ''danger''
          [\<lparr> title = ''Summary'',
             field_value =
               ''Critical: '' @ show_nat (length (filter (\<lambda>r. severity r = Critical) regs)) @
               '', High: '' @ show_nat (length (filter (\<lambda>r. severity r = High) regs)),
             short = True \<rparr>,
           \<lparr> title = ''Time'', field_value = now, short = True \<rparr>] #
        map (\<lambda>r. Text_attachment ''danger'' (bullet_mark @ '' '' @ description r))
            (take 5 (filter (\<lambda>r. severity r = Critical) regs)))"
proof (intro conjI impI)
  show "attachments (slack_notification now subject regs) =
     Fields_attachment ''danger''
       [\<lparr> title = ''Summary'',
          field_value =
            ''Critical: '' @ show_nat (length (filter (\<lambda>r. severity r = Critical) regs)) @
            '', High: '' @ show_nat (length (filter (\<lambda>r. severity r = High) regs)),
          short = True \<rparr>,
        \<lparr> title = ''Time'', field_value = now, short = True \<rparr>] #
     map (\<lambda>r. Text_attachment ''danger'' (bullet_mark @ '' '' @ description r))
         (take 5 (filter (\<lambda>r. severity r = Critical) regs))"
    by (rule slack_notification_attachments)
  show "length (tl (attachments (slack_notification now subject regs))) =
     min 5 (length (filter (\<lambda>r. severity r = Critical) regs))"
    by (simp add: slack_notification_attachments min.commute)
next
  assume "send_alert now regs = Some m"
  then have "m = slack_notification now (alert_subject (alert_regressions regs))
                   (alert_regressions regs)"
    by (simp add: send_alert_def split: if_splits)
  then show "attachments m =
        Fields_attachment ''danger''
          [\<lparr> title = ''Summary'',
             field_value =
               ''Critical: '' @ show_nat (length (filter (\<lambda>r. severity r = Critical) regs)) @
               '', High: '' @ show_nat (length (filter (\<lambda>r. severity r = High) regs)),
             short = True \<rparr>,
           \<lparr> title = ''Time'', field_value = now, short = True \<rparr>] #
        map (\<lambda>r. Text_attachment ''danger'' (bullet_mark @ '' '' @ description r))
            (take 5 (filter (\<lambda>r. severity r = Critical) regs))"
    by (simp only: slack_notification_attachments filter_alert_critical filter_alert_high)
qed

theorem slack_detail_attachments_witness:
  "send_alert ''2026-01-01 00:00:00''
     [baseline_regression ''m1'' 100 10 90, baseline_regression ''m2'' 100 20 80,
      baseline_regression ''m3'' 100 65 35, baseline_regression ''m4'' 100 30 70,
      baseline_regression ''m5'' 100 40 60, baseline_regression ''m6'' 100 45 55,
      baseline_regression ''m7'' 100 80 20, baseline_regression ''m8'' 100 50 50] =
     Some (slack_notification ''2026-01-01 00:00:00'' (alarm_mark @
             '' Performance Regression Alert - 7 Issues Detected'')
       [baseline_regression ''m1'' 100 10 90, baseline_regression ''m2'' 100 20 80,
        baseline_regression ''m3'' 100 65 35, baseline_regression ''m4'' 100 30 70,
        baseline_regression ''m5'' 100 40 60, baseline_regression ''m6'' 100 45 55,
        baseline_regression ''m8'' 100 50 50]) \<and>
   attachments (slack_notification ''2026-01-01 00:00:00'' (alarm_mark @
             '' Performance Regression Alert - 7 Issues Detected'')
       [baseline_regression ''m1'' 100 10 90, baseline_regression ''m2'' 100 20 80,
        baseline_regression ''m3'' 100 65 35, baseline_regression ''m4'' 100 30 70,
        baseline_regression ''m5'' 100 40 60, baseline_regression ''m6'' 100 45 55,
        baseline_regression ''m8'' 100 50 50]) =
     [Fields_attachment ''danger''
        [\<lparr> title = ''Summary'', field_value = ''Critical: 6, High: 1'', short = True \<rparr>,
         \<lparr> title = ''Time'', field_value = ''2026-01-01 00:00:00'', short = True \<rparr>],
      Text_attachment ''danger'' (bullet_mark @ '' m1 degraded by 90.0% from baseline''),
      Text_attachment ''danger'' (bullet_mark @ '' m2 degraded by 80.0% from baseline''),
      Text_attachment ''danger'' (bullet_mark @ '' m4 degraded by 70.0% from baseline''),
      Text_attachment ''danger'' (bullet_mark @ '' m5 degraded by 60.0% from baseline''),
      Text_attachment ''danger'' (bullet_mark @ '' m6 degraded by 55.0% from baseline'')]"
proof -
  have s: "send_alert ''2026-01-01 00:00:00''
     [baseline_regression ''m1'' 100 10 90, baseline_regression ''m2'' 100 20 80,
      baseline_regression ''m3'' 100 65 35, baseline_regression ''m4'' 100 30 70,
      baseline_regression ''m5'' 100 40 60, baseline_regression ''m6'' 100 45 55,
      baseline_regression ''m7'' 100 80 20, baseline_regression ''m8'' 100 50 50] =
     Some (slack_notification ''2026-01-01 00:00:00'' (alarm_mark @
             '' Performance Regression Alert - 7 Issues Detected'')
       [baseline_regression ''m1'' 100 10 90, baseline_regression ''m2'' 100 20 80,
        baseline_regression ''m3'' 100 65 35, baseline_regression ''m4'' 100 30 70,
        baseline_regression ''m5'' 100 40 60, baseline_regression ''m6'' 100 45 55,
        baseline_regression ''m8'' 100 50 50])"
    by code_simp
  have e: "attachments (slack_notification ''2026-01-01 00:00:00'' (alarm_mark @
             '' Performance Regression Alert - 7 Issues Detected'')
       [baseline_regression ''m1'' 100 10 90, baseline_regression ''m2'' 100 20 80,
        baseline_regression ''m3'' 100 65 35, baseline_regression ''m4'' 100 30 70,
        baseline_regression ''m5'' 100 40 60, baseline_regression ''m6'' 100 45 55,
        baseline_regression ''m8'' 100 50 50]) =
     [Fields_attachment ''danger''
        [\<lparr> title = ''Summary'', field_value = ''Critical: 6, High: 1'', short = True \<rparr>,
         \<lparr> title = ''Time'', field_value = ''2026-01-01 00:00:00'', short = True \<rparr>],
      Text_attachment ''danger'' (bullet_mark @ '' m1 degraded by 90.0% from baseline''),
      Text_attachment ''danger'' (bullet_mark @ '' m2 degraded by 80.0% from baseline''),
      Text_attachment ''danger'' (bullet_mark @ '' m4 degraded by 70.0% from baseline''),
      Text_attachment ''danger'' (bullet_mark @ '' m5 degraded by 60.0% from baseline''),
      Text_attachment ''danger'' (bullet_mark @ '' m6 degraded by 55.0% from baseline'')]"
    by code_simp
  from slack_detail_attachments [of "''2026-01-01 00:00:00''" _
      "[baseline_regression ''m1'' 100 10 90, baseline_regression ''m2'' 100 20 80,
      baseline_regression ''m3'' 100 65 35, baseline_regression ''m4'' 100 30 70,
      baseline_regression ''m5'' 100 40 60, baseline_regression ''m6'' 100 45 55,
      baseline_regression ''m7'' 100 80 20, baseline_regression ''m8'' 100 50 50]", THEN conjunct2, THEN conjunct2, rule_format, OF s]
    s e
  show ?thesis by simp
qed

subsection \<open>Performance score\<close>

lemma metric_scores_range:
  "metric_scores base cur = Inr scores \<Longrightarrow> s \<in> set scores \<Longrightarrow> 0 \<le> s \<and> s \<le> 100"
proof (induction base arbitrary: scores)
  case Nil
  then show ?case by simp
next
  case (Cons item rest)
  obtain m bv where item: "item = (m, bv)" by (cases item)
  from Cons.prems(1) obtain found scores' where
    f: "(case map_of cur m of
              None \<Rightarrow> Inr None
            | Some current_value \<Rightarrow>
                (case (num_of bv, num_of current_value) of
                   (Some b, Some c) \<Rightarrow>
                     (case (if is_higher_worse m then py_div b c else py_div c b) of
                        Inl e \<Rightarrow> Inl e
                      | Inr ratio \<Rightarrow> Inr (Some (min 100 (max 0 (ratio * 100)))))
                 | _ \<Rightarrow> Inr None)) = Inr found"
    and r: "metric_scores rest cur = Inr scores'"
    and sc: "scores = (case found of None \<Rightarrow> [] | Some score \<Rightarrow> [score]) @ scores'"
    unfolding item by (auto split: sum.splits)
  from Cons.prems(2) have "found = Some s \<or> s \<in> set scores'"
    unfolding sc by (cases found) auto
  then show ?case
  proof
    assume "found = Some s"
    with f obtain ratio where "s = min 100 (max 0 (ratio * 100))"
      by (auto split: option.splits sum.splits)
    then show ?thesis by simp
  next
    assume "s \<in> set scores'"
    from Cons.IH [OF r this] show ?thesis .
  qed
qed

lemma sum_list_bounds:
  fixes xs :: "rat list"
  assumes "\<And>x. x \<in> set xs \<Longrightarrow> 0 \<le> x \<and> x \<le> 100"
  shows "0 \<le> sum_list xs \<and> sum_list xs \<le> 100 * of_nat (length xs)"
  using assms by (induction xs) (auto simp: algebra_simps intro: add_mono add_nonneg_nonneg)

lemma mean_bounds:
  fixes xs :: "rat list"
  assumes "xs \<noteq> []" and "\<And>x. x \<in> set xs \<Longrightarrow> 0 \<le> x \<and> x \<le> 100"
  shows "\<exists>m. mean xs = Inr m \<and> 0 \<le> m \<and> m \<le> 100"
proof -
  from assms(1) have n: "(0::rat) < of_nat (length xs)" by simp
  from sum_list_bounds [OF assms(2)]
  have b: "0 \<le> sum_list xs" "sum_list xs \<le> 100 * of_nat (length xs)" by simp_all
  from b(1) n have "0 \<le> sum_list xs / of_nat (length xs)" by simp
  moreover from b(2) n have "sum_list xs / of_nat (length xs) \<le> 100"
    by (simp add: pos_divide_le_eq)
  ultimately show ?thesis using assms(1) by (simp add: mean_def)
qed

lemma score_in_range:
  assumes "calculate_performance_score base cur = Inr n"
  shows "0 \<le> n \<and> n \<le> 100"
proof (cases "cur = [] \<or> base = []")
  case True
  with assms show ?thesis by (auto simp: calculate_performance_score_def)
next
  case False
  with assms obtain scores where sc: "metric_scores base cur = Inr scores"
    and n: "(if scores \<noteq> []
             then (case mean scores of Inl e \<Rightarrow> Inl e | Inr m \<Rightarrow> Inr (py_int m))
             else Inr 50) = Inr n"
    by (auto simp: calculate_performance_score_def split: sum.splits)
  show ?thesis
  proof (cases "scores = []")
    case True
    with n show ?thesis by simp
  next
    case ne: False
    from mean_bounds [OF ne metric_scores_range [OF sc]]
    obtain m where m: "mean scores = Inr m" "0 \<le> m" "m \<le> 100" by blast
    with n ne have "n = \<lfloor>m\<rfloor>" by (simp add: py_int_def)
    with m(2,3) show ?thesis by (simp add: floor_le_iff le_floor_iff)
  qed
qed

lemma score_no_division_by_zero:
  assumes "\<And>m bv cv b c. (m, bv) \<in> set base \<Longrightarrow> map_of cur m = Some cv \<Longrightarrow>
             num_of bv = Some b \<Longrightarrow> num_of cv = Some c \<Longrightarrow> b \<noteq> 0 \<and> c \<noteq> 0"
  shows "\<exists>scores. metric_scores base cur = Inr scores"
  using assms
proof (induction base)
  case Nil
  then show ?case by simp
next
  case (Cons item rest)
  obtain m bv where item: "item = (m, bv)" by (cases item)
  from Cons.IH Cons.prems obtain scores where r: "metric_scores rest cur = Inr scores"
    by (meson list.set_intros(2))
  have "\<exists>found. (case map_of cur m of
              None \<Rightarrow> Inr None
            | Some current_value \<Rightarrow>
                (case (num_of bv, num_of current_value) of
                   (Some b, Some c) \<Rightarrow>
                     (case (if is_higher_worse m then py_div b c else py_div c b) of
                        Inl e \<Rightarrow> Inl e
                      | Inr ratio \<Rightarrow> Inr (Some (min 100 (max 0 (ratio * 100)))))
                 | _ \<Rightarrow> Inr None)) = (Inr found :: error + rat option)"
  proof (cases "map_of cur m")
    case None
    then show ?thesis by simp
  next
    case (Some cv)
    show ?thesis
    proof (cases "num_of bv")
      case None
      with Some show ?thesis by simp
    next
      case b: (Some b)
      show ?thesis
      proof (cases "num_of cv")
        case None
        with Some b show ?thesis by simp
      next
        case c: (Some c)
        from Cons.prems [of m bv cv b c] Some b c have "b \<noteq> 0 \<and> c \<noteq> 0"
          by (simp add: item)
        with Some b c show ?thesis by (simp add: py_div_nonzero)
      qed
    qed
  qed
  then obtain found where "(case map_of cur m of
              None \<Rightarrow> Inr None
            | Some current_value \<Rightarrow>
                (case (num_of bv, num_of current_value) of
                   (Some b, Some c) \<Rightarrow>
                     (case (if is_higher_worse m then py_div b c else py_div c b) of
                        Inl e \<Rightarrow> Inl e
                      | Inr ratio \<Rightarrow> Inr (Some (min 100 (max 0 (ratio * 100)))))
                 | _ \<Rightarrow> Inr None)) = (Inr found :: error + rat option)" ..
  with r show ?case unfolding item by simp
qed

lemma score_no_comparable_pair:
  assumes "\<And>m bv cv. (m, bv) \<in> set base \<Longrightarrow> map_of cur m = Some cv \<Longrightarrow>
             num_of bv = None \<or> num_of cv = None"
  shows "metric_scores base cur = Inr []"
  using assms
proof (induction base)
  case Nil
  then show ?case by simp
next
  case (Cons item rest)
  obtain m bv where item: "item = (m, bv)" by (cases item)
  from Cons.IH Cons.prems have r: "metric_scores rest cur = Inr []"
    by (meson list.set_intros(2))
  have "(case map_of cur m of
              None \<Rightarrow> Inr None
            | Some current_value \<Rightarrow>
                (case (num_of bv, num_of current_value) of
                   (Some b, Some c) \<Rightarrow>
                     (case (if is_higher_worse m then py_div b c else py_div c b) of
                        Inl e \<Rightarrow> Inl e
                      | Inr ratio \<Rightarrow> Inr (Some (min 100 (max 0 (ratio * 100)))))
                 | _ \<Rightarrow> Inr None)) = (Inr None :: error + rat option)"
    using Cons.prems [of m bv] by (auto simp: item split: option.splits)
  with r show ?case unfolding item by simp
qed

lemma score_default:
  assumes "\<And>m bv cv. (m, bv) \<in> set base \<Longrightarrow> map_of cur m = Some cv \<Longrightarrow>
             num_of bv = None \<or> num_of cv = None"
  shows "calculate_performance_score base cur = Inr 50"
  using score_no_comparable_pair [OF assms]
  by (simp add: calculate_performance_score_def)

lemma score_returned:
  assumes "\<And>m bv cv b c. (m, bv) \<in> set base \<Longrightarrow> map_of cur m = Some cv \<Longrightarrow>
             num_of bv = Some b \<Longrightarrow> num_of cv = Some c \<Longrightarrow> b \<noteq> 0 \<and> c \<noteq> 0"
  shows "\<exists>n. calculate_performance_score base cur = Inr n \<and> 0 \<le> n \<and> n \<le> 100"
proof -
  have "\<exists>scores. metric_scores base cur = Inr scores"
  proof (rule score_no_division_by_zero)
    fix m bv cv b c
    assume "(m, bv) \<in> set base" and "map_of cur m = Some cv"
      and "num_of bv = Some b" and "num_of cv = Some c"
    then show "b \<noteq> 0 \<and> c \<noteq> 0" by (rule assms)
  qed
  then obtain scores where sc: "metric_scores base cur = Inr scores" by blast
  have "\<exists>n. calculate_performance_score base cur = Inr n"
  proof (cases "scores = []")
    case True
    with sc show ?thesis by (simp add: calculate_performance_score_def)
  next
    case False
    from mean_bounds [OF False metric_scores_range [OF sc]]
    obtain m where "mean scores = Inr m" by blast
    with sc False show ?thesis by (simp add: calculate_performance_score_def)
  qed
  with score_in_range show ?thesis by blast
qed

text \<open>
  C7. The claim: \<open>score()\<close> always returns an integer in [0, 100]. Whenever the score is
  returned it lies in [0, 100] (\<open>score_in_range\<close>), it is returned whenever no compared
  value is zero (\<open>score_no_division_by_zero\<close>), and it is 50 when no comparable pair
  exists (\<open>score_default\<close>). But the ratio is computed without a guard: with baseline
  \<open>{failed_requests: 0}\<close> and current \<open>{failed_requests: 2}\<close>, and with baseline
  \<open>{cpu_usage: 40}\<close> and current \<open>{cpu_usage: 0}\<close>, \<open>_calculate_performance_score\<close> raises
  \<open>ZeroDivisionError\<close>, and so does \<open>generate_report\<close>, which calls it.
\<close>

theorem score_zero_divisor_raises:
  "calculate_performance_score [(''failed_requests'', JNum 0)] [(''failed_requests'', JNum 2)] =
     Inl ZeroDivisionError \<and>
   calculate_performance_score [(''cpu_usage'', JNum 40)] [(''cpu_usage'', JNum 0)] =
     Inl ZeroDivisionError \<and>
   generate_report now [(''cpu_usage'', JNum 40)] [(''cpu_usage'', JNum 0)] [] =
     Inl ZeroDivisionError"
  by code_simp

subsection \<open>Loading the historical snapshots\<close>





subsection \<open>Report\<close>

lemma group_by_severity_lookup:
  "group_by_severity regs g s =
     (if filter (\<lambda>r. severity r = s) regs = [] then g s
      else Some ((case g s of None \<Rightarrow> [] | Some l \<Rightarrow> l) @ filter (\<lambda>r. severity r = s) regs))"
  by (induction regs arbitrary: g) (auto split: option.splits)

lemma render_severity_group:
  "render_severity (group_by_severity regs Map.empty) s =
     (if filter (\<lambda>r. severity r = s) regs = [] then []
      else (''## '' @ severity_upper s @ '' SEVERITY ('' @
              show_nat (length (filter (\<lambda>r. severity r = s) regs)) @ '')'') #
           concat (map render_regression (filter (\<lambda>r. severity r = s) regs)))"
  by (simp add: render_severity_def group_by_severity_lookup)

lemma length_by_severity:
  "length regs =
     length (filter (\<lambda>r. severity r = Critical) regs) +
     length (filter (\<lambda>r. severity r = High) regs) +
     length (filter (\<lambda>r. severity r = Medium) regs) +
     length (filter (\<lambda>r. severity r = Low) regs)"
proof (induction regs)
  case Nil
  then show ?case by simp
next
  case (Cons r regs)
  then show ?case by (cases "severity r") simp_all
qed

text \<open>
  C3, as amended. For a fixed generation time and fixed snapshots the report text is
  determined by the sub-lists of regressions of each severity: two lists with the same
  regressions of each severity in the same order give the same text, however the
  severities are interleaved. Within a severity bucket the entries are rendered in the
  order of the list; they are not sorted by metric name.
\<close>

theorem report_order_within_bucket:
  "((\<forall>s. filter (\<lambda>r. severity r = s) regs1 = filter (\<lambda>r. severity r = s) regs2) \<longrightarrow>
      generate_report now base cur regs1 = generate_report now base cur regs2) \<and>
   render_severity (group_by_severity regs Map.empty) s =
     (if filter (\<lambda>r. severity r = s) regs = [] then []
      else (''## '' @ severity_upper s @ '' SEVERITY ('' @
              show_nat (length (filter (\<lambda>r. severity r = s) regs)) @ '')'') #
           concat (map render_regression (filter (\<lambda>r. severity r = s) regs)))"
proof (intro conjI impI)
  assume h: "\<forall>s. filter (\<lambda>r. severity r = s) regs1 = filter (\<lambda>r. severity r = s) regs2"
  then have len: "length regs1 = length regs2"
    by (simp add: length_by_severity [of regs1] length_by_severity [of regs2])
  then have emp: "regs1 = [] \<longleftrightarrow> regs2 = []" by auto
  from h have "render_severity (group_by_severity regs1 Map.empty) =
    render_severity (group_by_severity regs2 Map.empty)"
    by (intro ext) (simp add: render_severity_group)
  then show "generate_report now base cur regs1 = generate_report now base cur regs2"
    by (simp only: generate_report_def len emp)
next
  show "render_severity (group_by_severity regs Map.empty) s =
     (if filter (\<lambda>r. severity r = s) regs = [] then []
      else (''## '' @ severity_upper s @ '' SEVERITY ('' @
              show_nat (length (filter (\<lambda>r. severity r = s) regs)) @ '')'') #
           concat (map render_regression (filter (\<lambda>r. severity r = s) regs)))"
    by (rule render_severity_group)
qed

theorem report_order_within_bucket_witness:
  "generate_report ''2026-01-01T00:00:00''
     [(''response_time_ms'', JNum 100), (''throughput'', JNum 1000)]
     [(''response_time_ms'', JNum 120), (''throughput'', JNum 400)]
     [baseline_regression ''response_time_ms'' 100 120 20,
      baseline_regression ''throughput'' 1000 400 60] =
   generate_report ''2026-01-01T00:00:00''
     [(''response_time_ms'', JNum 100), (''throughput'', JNum 1000)]
     [(''response_time_ms'', JNum 120), (''throughput'', JNum 400)]
     [baseline_regression ''throughput'' 1000 400 60,
      baseline_regression ''response_time_ms'' 100 120 20]"
proof -
  have "\<forall>s. filter (\<lambda>r. severity r = s)
            [baseline_regression ''response_time_ms'' 100 120 20,
             baseline_regression ''throughput'' 1000 400 60] =
          filter (\<lambda>r. severity r = s)
            [baseline_regression ''throughput'' 1000 400 60,
             baseline_regression ''response_time_ms'' 100 120 20]"
    by (auto simp: calculate_severity_def)
  with report_order_within_bucket [of
      "[baseline_regression ''response_time_ms'' 100 120 20,
        baseline_regression ''throughput'' 1000 400 60]"
      "[baseline_regression ''throughput'' 1000 400 60,
        baseline_regression ''response_time_ms'' 100 120 20]"]
  show ?thesis by blast
qed

text \<open>
  Two regressions of the same severity, given in the two possible orders: the two report
  texts differ, since each lists the entries in the order it was given.
\<close>

theorem report_order_counterexample:
  "generate_report ''2026-01-01T00:00:00''
     [(''response_time_ms'', JNum 100), (''latency_ms'', JNum 50)]
     [(''response_time_ms'', JNum 120), (''latency_ms'', JNum 61)]
     [baseline_regression ''response_time_ms'' 100 120 20,
      baseline_regression ''latency_ms'' 50 61 22] \<noteq>
   generate_report ''2026-01-01T00:00:00''
     [(''response_time_ms'', JNum 100), (''latency_ms'', JNum 50)]
     [(''response_time_ms'', JNum 120), (''latency_ms'', JNum 61)]
     [baseline_regression ''latency_ms'' 50 61 22,
      baseline_regression ''response_time_ms'' 100 120 20]"
  by code_simp

end
